theory Spec2Isabelle
  imports Main "HOL-Library.AList"
begin

section \<open>The data of content.js\<close>

text \<open>
  The content script keeps its state in module-level variables and reacts to events of the
  page's event loop: pointer moves, the 100 ms interval timer, presence messages of the
  channel, the toggle message of the extension and the timers it has set itself. Each
  listener runs to completion before the next one starts, so a listener is a function from
  the state to the state, and an exception thrown inside a listener ends that listener only.

  Times and coordinates are numbers of milliseconds and of pixels; they are modelled as
  integers, so an offset is a whole number of milliseconds.
\<close>

datatype exn = TypeError | SyntaxError

text \<open>What \<^verbatim>\<open>getBoundingClientRect()\<close> returns, as far as the script reads it.\<close>

record rect =
  rect_left :: int
  rect_top :: int

text \<open>
  An element of the page as the script sees it. The replay callback tests
  \<^verbatim>\<open>typeof element.getBoundingClientRect === 'function'\<close>, so the method is optional here.
\<close>

record dom_element =
  className :: string
  elem_id :: string
  getBoundingClientRect :: "rect option"

text \<open>
  The two queries of \<^verbatim>\<open>document\<close> that the script calls. \<^verbatim>\<open>elementFromPoint\<close> returns
  \<^verbatim>\<open>null\<close> when the point is outside the viewport; \<^verbatim>\<open>querySelectorAll\<close> throws a
  \<^verbatim>\<open>SyntaxError\<close> when its argument is not a valid selector.
\<close>

record document =
  elementFromPoint :: "int \<Rightarrow> int \<Rightarrow> dom_element option"
  querySelectorAll :: "string \<Rightarrow> exn + dom_element list"

record mouse_event =
  clientX :: int
  clientY :: int
  pageX :: int
  pageY :: int

text \<open>One entry of \<^verbatim>\<open>positions\<close>: \<^verbatim>\<open>{x, y, xElement, yElement, time, element}\<close>.\<close>

record position =
  pos_x :: int
  pos_y :: int
  xElement :: int
  yElement :: int
  pos_time :: int
  pos_element :: string

text \<open>
  The payload of a presence message. The script sends \<^verbatim>\<open>{positions, color}\<close> with an update
  and \<^verbatim>\<open>{color}\<close> on entering, so \<^verbatim>\<open>positions\<close> may be missing. \<open>baseTimestamp\<close> stands
  for a field a sender may add to the payload; no listener of the script reads it.
\<close>

record presence_data =
  data_color :: string
  data_positions :: "position list option"
  baseTimestamp :: "int option"

record presenceMsg =
  msg_clientId :: string
  msg_data :: presence_data

text \<open>
  The \<^verbatim>\<open>div\<close> drawn for a remote participant. Its fixed style (10px circle, absolute
  position, z-index 9999) is left out; \<open>style_left\<close> and \<open>style_top\<close> are in pixels and are
  \<open>None\<close> until the first assignment.
\<close>

record cursor =
  style_backgroundColor :: string
  title :: string
  style_left :: "int option"
  style_top :: "int option"

text \<open>The calls made on \<^verbatim>\<open>channel.presence\<close>, in the order they are made.\<close>

datatype presence_call =
    PresenceUpdate presence_data
  | PresenceEnter string
  | PresenceLeave
  | PresenceGet

text \<open>
  The two closures passed to \<^verbatim>\<open>setTimeout\<close>: the one of the update listener (lines 94-115)
  and the one of \<^verbatim>\<open>fetchPresenceSet\<close> (lines 175-179), each with the client id and the
  position it has captured.
\<close>

datatype timer_callback =
    ReplayUpdate string position
  | ReplaySnapshot string position

record state =
  cursorCommunicationEnabled :: bool
  positions :: "position list"
  baseTime :: "int option"
  cursors :: "(string \<times> cursor) list"
  color :: string
  timers :: "(int \<times> timer_callback) list"
  channel_calls :: "presence_call list"

definition init :: "string \<Rightarrow> state" where
  "init col = \<lparr>cursorCommunicationEnabled = False, positions = [], baseTime = None,
     cursors = [], color = col, timers = [], channel_calls = []\<rparr>"

section \<open>Capturing: the mousemove listener (lines 24-49)\<close>

text \<open>\<^verbatim>\<open>s.replaceAll(c, r)\<close> for a pattern of one character.\<close>

definition replaceAll :: "char \<Rightarrow> string \<Rightarrow> string \<Rightarrow> string" where
  "replaceAll c r s = concat (map (\<lambda>d. if d = c then r else [d]) s)"

text \<open>Lines 28-31. The replacement of the colon is a backslash followed by a colon.\<close>

definition elementClassAndID :: "dom_element \<Rightarrow> string" where
  "elementClassAndID el =
     (let s0 = (if className el \<noteq> [] then ''.'' @ className el else []);
          s1 = replaceAll (CHR '':'') [CHR 0x5C, CHR '':''] (replaceAll (CHR '' '') ''.'' s0)
      in if elem_id el \<noteq> [] then s1 @ '' #'' @ elem_id el else s1)"

text \<open>\<^verbatim>\<open>!baseTime\<close>: true for \<^verbatim>\<open>undefined\<close>, \<^verbatim>\<open>null\<close> and \<^verbatim>\<open>0\<close>.\<close>

definition baseTime_unset :: "int option \<Rightarrow> bool" where
  "baseTime_unset b = (case b of None \<Rightarrow> True | Some t \<Rightarrow> t = 0)"

text \<open>
  Lines 27-47 for an enabled session: the base time after line 45 and the object pushed,
  or the \<^verbatim>\<open>TypeError\<close> of reading \<^verbatim>\<open>className\<close> of \<^verbatim>\<open>null\<close> (line 29) or of calling a
  missing \<^verbatim>\<open>getBoundingClientRect\<close> (line 34). Nothing is assigned before either throw.
\<close>

definition capture :: "document \<Rightarrow> mouse_event \<Rightarrow> int \<Rightarrow> int option \<Rightarrow> exn + int \<times> position" where
  "capture doc e now bt =
     (case elementFromPoint doc (clientX e) (clientY e) of
        None \<Rightarrow> Inl TypeError
      | Some el \<Rightarrow>
          (case getBoundingClientRect el of
             None \<Rightarrow> Inl TypeError
           | Some r \<Rightarrow>
               (let b = (if baseTime_unset bt then now else the bt) in
                Inr (b, \<lparr>pos_x = pageX e, pos_y = pageY e,
                          xElement = pageX e - rect_left r, yElement = pageY e - rect_top r,
                          pos_time = now - b, pos_element = elementClassAndID el\<rparr>))))"

definition mousemove :: "document \<Rightarrow> mouse_event \<Rightarrow> int \<Rightarrow> state \<Rightarrow> exn + state" where
  "mousemove doc e now s =
     (if cursorCommunicationEnabled s then
        (case capture doc e now (baseTime s) of
           Inl ex \<Rightarrow> Inl ex
         | Inr (b, p) \<Rightarrow> Inr (s\<lparr>baseTime := Some b, positions := positions s @ [p]\<rparr>))
      else Inr s)"

section \<open>Flushing: the interval callback (lines 53-59)\<close>

definition flush :: "state \<Rightarrow> state" where
  "flush s =
     (if cursorCommunicationEnabled s \<and> positions s \<noteq> [] then
        s\<lparr>channel_calls := channel_calls s @
             [PresenceUpdate \<lparr>data_color = color s, data_positions = Some (positions s),
                              baseTimestamp = None\<rparr>],
          positions := [], baseTime := None\<rparr>
      else s)"

section \<open>Timers\<close>

text \<open>
  The delay of \<^verbatim>\<open>setTimeout\<close> is a 32-bit signed integer: the platform reduces the number it
  is given modulo \<open>2\<^sup>3\<^sup>2\<close> into the range from \<open>-2\<^sup>3\<^sup>1\<close> to \<open>2\<^sup>3\<^sup>1 - 1\<close> and takes a negative
  result as 0. A delay of \<open>2\<^sup>3\<^sup>1\<close> milliseconds or more therefore does not wait that long.
\<close>

definition toInt32 :: "int \<Rightarrow> int" where
  "toInt32 d = (let r = d mod 4294967296 in if 2147483648 \<le> r then r - 4294967296 else r)"

definition timerDelay :: "int \<Rightarrow> int" where
  "timerDelay d = max 0 (toInt32 d)"

text \<open>
  \<^verbatim>\<open>setTimeout(cb, delay)\<close> called at time \<open>now\<close>: the callback is due after the delay the
  platform makes of \<open>delay\<close>. Pending timers are kept in the order they were set.
\<close>

definition setTimeout :: "int \<Rightarrow> timer_callback \<Rightarrow> int \<Rightarrow> state \<Rightarrow> state" where
  "setTimeout now cb delay s = s\<lparr>timers := timers s @ [(now + timerDelay delay, cb)]\<rparr>"

text \<open>The timer that fires next: the earliest due, the first set among equals.\<close>

fun earliest :: "(int \<times> 'a) list \<Rightarrow> (int \<times> 'a) option" where
  "earliest [] = None"
| "earliest (t # ts) =
     (case earliest ts of
        None \<Rightarrow> Some t
      | Some u \<Rightarrow> if fst t \<le> fst u then Some t else Some u)"

section \<open>Replaying: the listeners of the channel\<close>

text \<open>
  \<^verbatim>\<open>cursors\<close> is a plain object, so \<^verbatim>\<open>cursors[id]\<close> finds the entry stored under \<open>id\<close> and
  otherwise, for the names below, a property that every object inherits from
  \<^verbatim>\<open>Object.prototype\<close>. Such a property is a function or an object: it passes the tests
  \<^verbatim>\<open>if (cursors[id])\<close> and fails \<^verbatim>\<open>if (!cursors[id])\<close>, but it has no \<^verbatim>\<open>style\<close> and is not a
  node of the page.
\<close>

definition objectPrototypeNames :: "string list" where
  "objectPrototypeNames =
     [''constructor'', ''hasOwnProperty'', ''isPrototypeOf'', ''propertyIsEnumerable'',
      ''toLocaleString'', ''toString'', ''valueOf'', ''__proto__'', ''__defineGetter__'',
      ''__defineSetter__'', ''__lookupGetter__'', ''__lookupSetter__'']"

datatype 'a property = Own 'a | Inherited | Missing

definition getCursor :: "state \<Rightarrow> string \<Rightarrow> cursor property" where
  "getCursor s cid =
     (case map_of (cursors s) cid of
        Some c \<Rightarrow> Own c
      | None \<Rightarrow> if cid \<in> set objectPrototypeNames then Inherited else Missing)"

definition createCursor :: "presenceMsg \<Rightarrow> state \<Rightarrow> state" where
  "createCursor m s =
     s\<lparr>cursors := cursors s @
        [(msg_clientId m,
          \<lparr>style_backgroundColor = data_color (msg_data m), title = msg_clientId m,
           style_left = None, style_top = None\<rparr>)]\<rparr>"

text \<open>
  The two assignments to \<^verbatim>\<open>cursors[id].style.left\<close> and \<^verbatim>\<open>.top\<close>. Where \<^verbatim>\<open>cursors[id]\<close> is
  not a stored entry, \<^verbatim>\<open>.style\<close> is \<^verbatim>\<open>undefined\<close> and the first assignment throws.
\<close>

definition moveCursor :: "string \<Rightarrow> int \<Rightarrow> int \<Rightarrow> state \<Rightarrow> exn + state" where
  "moveCursor cid l t s =
     (case getCursor s cid of
        Own c \<Rightarrow>
          Inr (s\<lparr>cursors :=
                 AList.update cid (c\<lparr>style_left := Some l, style_top := Some t\<rparr>) (cursors s)\<rparr>)
      | Inherited \<Rightarrow> Inl TypeError
      | Missing \<Rightarrow> Inl TypeError)"

text \<open>Lines 65-118: the listener for presence updates, called at time \<open>now\<close>.\<close>

definition onPresenceUpdate :: "presenceMsg \<Rightarrow> int \<Rightarrow> state \<Rightarrow> state" where
  "onPresenceUpdate m now s =
     (if cursorCommunicationEnabled s then
        (let s1 = (if getCursor s (msg_clientId m) = Missing then createCursor m s else s) in
         case data_positions (msg_data m) of
           None \<Rightarrow> s1
         | Some ps \<Rightarrow>
             fold (\<lambda>p. setTimeout now (ReplayUpdate (msg_clientId m) p) (pos_time p)) ps s1)
      else s)"

text \<open>Lines 94-115: the body of the timer set by the update listener.\<close>

definition replayUpdate :: "document \<Rightarrow> string \<Rightarrow> position \<Rightarrow> state \<Rightarrow> exn + state" where
  "replayUpdate doc cid p s =
     (if getCursor s cid = Missing then Inr s
      else
        (case (if pos_element p \<noteq> []
               then map_sum id Some (querySelectorAll doc (pos_element p))
               else Inr None) of
           Inl ex \<Rightarrow> Inl ex
         | Inr elements \<Rightarrow>
             (case (case elements of Some [el] \<Rightarrow> Some el | _ \<Rightarrow> None) of
                Some el \<Rightarrow>
                  (case getBoundingClientRect el of
                     Some r \<Rightarrow>
                       moveCursor cid (rect_left r + xElement p) (rect_top r + yElement p) s
                   | None \<Rightarrow> Inr s)
              | None \<Rightarrow> moveCursor cid (pos_x p) (pos_y p) s)))"

text \<open>Lines 175-179: the body of the timer set by \<^verbatim>\<open>fetchPresenceSet\<close>.\<close>

definition replaySnapshot :: "string \<Rightarrow> position \<Rightarrow> state \<Rightarrow> exn + state" where
  "replaySnapshot cid p s =
     (if getCursor s cid = Missing then Inr s else moveCursor cid (pos_x p) (pos_y p) s)"

fun fire :: "document \<Rightarrow> timer_callback \<Rightarrow> state \<Rightarrow> exn + state" where
  "fire doc (ReplayUpdate cid p) s = replayUpdate doc cid p s"
| "fire doc (ReplaySnapshot cid p) s = replaySnapshot cid p s"

text \<open>
  Lines 122-128: the listener for presence leaves. \<^verbatim>\<open>removeChild\<close> throws a \<^verbatim>\<open>TypeError\<close>
  when its argument is not a node.
\<close>

definition onPresenceLeave :: "presenceMsg \<Rightarrow> state \<Rightarrow> exn + state" where
  "onPresenceLeave m s =
     (case getCursor s (msg_clientId m) of
        Own c \<Rightarrow> Inr (s\<lparr>cursors := AList.delete (msg_clientId m) (cursors s)\<rparr>)
      | Inherited \<Rightarrow> Inl TypeError
      | Missing \<Rightarrow> Inr s)"

text \<open>
  Lines 131-136: the loop enumerates the stored entries (inherited properties are not
  enumerable) and deletes each.
\<close>

definition clearCursors :: "state \<Rightarrow> state" where
  "clearCursors s =
     fold (\<lambda>k s'. s'\<lparr>cursors := AList.delete k (cursors s')\<rparr>) (map fst (cursors s)) s"

text \<open>
  Lines 146-181: the loop of the callback of \<^verbatim>\<open>channel.presence.get\<close>. The \<^verbatim>\<open>return\<close> of
  line 171 leaves the callback, and with it the loop.
\<close>

fun presenceSetLoop :: "presenceMsg list \<Rightarrow> int \<Rightarrow> state \<Rightarrow> state" where
  "presenceSetLoop [] now s = s"
| "presenceSetLoop (m # ms) now s =
     (let s1 = (if getCursor s (msg_clientId m) = Missing then createCursor m s else s) in
      case data_positions (msg_data m) of
        None \<Rightarrow> s1
      | Some ps \<Rightarrow>
          presenceSetLoop ms now
            (fold (\<lambda>p. setTimeout now (ReplaySnapshot (msg_clientId m) p) (pos_time p)) ps s1))"

text \<open>Lines 140-182: the callback itself; \<open>err\<close> tells whether the fetch failed.\<close>

definition presenceGetCallback :: "bool \<Rightarrow> presenceMsg list \<Rightarrow> int \<Rightarrow> state \<Rightarrow> state" where
  "presenceGetCallback err presenceSet now s =
     (if err then s else presenceSetLoop presenceSet now s)"

section \<open>The toggle message (lines 196-208)\<close>

definition onMessage :: "string \<Rightarrow> state \<Rightarrow> state" where
  "onMessage method s =
     (if method = ''setCursorCommunication'' then
        (let s1 = s\<lparr>cursorCommunicationEnabled := \<not> cursorCommunicationEnabled s\<rparr> in
         if cursorCommunicationEnabled s1
         then s1\<lparr>channel_calls := channel_calls s1 @ [PresenceGet, PresenceEnter (color s1)]\<rparr>
         else (let s2 = clearCursors s1
               in s2\<lparr>channel_calls := channel_calls s2 @ [PresenceLeave]\<rparr>))
      else s)"

section \<open>The event loop\<close>

datatype event =
    MouseMove document mouse_event int
  | IntervalTick
  | PresenceUpdateMsg presenceMsg int
  | PresenceLeaveMsg presenceMsg
  | PresenceGetResult bool "presenceMsg list" int
  | RuntimeMessage string
  | TimerFire document

text \<open>A listener that throws leaves the state as it was when it threw.\<close>

definition swallow :: "state \<Rightarrow> exn + state \<Rightarrow> state" where
  "swallow s r = (case r of Inl ex \<Rightarrow> s | Inr s' \<Rightarrow> s')"

fun step :: "event \<Rightarrow> state \<Rightarrow> state" where
  "step (MouseMove doc e now) s = swallow s (mousemove doc e now s)"
| "step IntervalTick s = flush s"
| "step (PresenceUpdateMsg m now) s = onPresenceUpdate m now s"
| "step (PresenceLeaveMsg m) s = swallow s (onPresenceLeave m s)"
| "step (PresenceGetResult err ps now) s = presenceGetCallback err ps now s"
| "step (RuntimeMessage method) s = onMessage method s"
| "step (TimerFire doc) s =
     (case earliest (timers s) of
        None \<Rightarrow> s
      | Some tc \<Rightarrow>
          (let s1 = s\<lparr>timers := remove1 tc (timers s)\<rparr>
           in swallow s1 (fire doc (snd tc) s1)))"

definition run :: "event list \<Rightarrow> state \<Rightarrow> state" where
  "run evs s = fold step evs s"

section \<open>What is observed of a run\<close>

text \<open>The batches handed to \<^verbatim>\<open>channel.presence.update\<close>, oldest first.\<close>

fun sent_batches :: "presence_call list \<Rightarrow> position list list" where
  "sent_batches [] = []"
| "sent_batches (PresenceUpdate d # cs) =
     (case data_positions d of None \<Rightarrow> [] | Some ps \<Rightarrow> [ps]) @ sent_batches cs"
| "sent_batches (c # cs) = sent_batches cs"

text \<open>
  The sample an event captures: the object a pointer move builds while the session is
  enabled and the pointer is over an element, nothing for any other event.
\<close>

definition captured_by :: "event \<Rightarrow> state \<Rightarrow> position list" where
  "captured_by ev s =
     (case ev of
        MouseMove doc e now \<Rightarrow>
          (if cursorCommunicationEnabled s then
             (case capture doc e now (baseTime s) of Inl ex \<Rightarrow> [] | Inr bp \<Rightarrow> [snd bp])
           else [])
      | _ \<Rightarrow> [])"

fun captured :: "event list \<Rightarrow> state \<Rightarrow> position list" where
  "captured [] s = []"
| "captured (ev # evs) s = captured_by ev s @ captured evs (step ev s)"

section \<open>Concrete sessions\<close>

definition toggle :: event where
  "toggle = RuntimeMessage ''setCursorCommunication''"

definition enabled0 :: state where
  "enabled0 = (init ''#1A2B3C'')\<lparr>cursorCommunicationEnabled := True\<rparr>"

text \<open>A page on which no point hits an element and no selector matches.\<close>

definition blank_page :: document where
  "blank_page = \<lparr>elementFromPoint = (\<lambda>vx vy. None), querySelectorAll = (\<lambda>sel. Inr [])\<rparr>"

text \<open>A pointer move reported with coordinates left of the viewport.\<close>

definition outside :: mouse_event where
  "outside = \<lparr>clientX = - 5, clientY = 20, pageX = - 5, pageY = 20\<rparr>"

text \<open>
  Two members of a presence set: one that has entered with \<^verbatim>\<open>{color}\<close> only, one whose
  last update carried positions.
\<close>

definition idle_member :: presenceMsg where
  "idle_member = \<lparr>msg_clientId = ''User-a'',
     msg_data = \<lparr>data_color = ''#FF0000'', data_positions = None, baseTimestamp = None\<rparr>\<rparr>"

definition active_member :: presenceMsg where
  "active_member = \<lparr>msg_clientId = ''User-b'',
     msg_data = \<lparr>data_color = ''#00FF00'', data_positions = Some [], baseTimestamp = None\<rparr>\<rparr>"

text \<open>The \<^verbatim>\<open>left\<close> and \<^verbatim>\<open>top\<close> of the cursor drawn for a participant, if one is drawn.\<close>

definition cursor_at :: "state \<Rightarrow> string \<Rightarrow> (int option \<times> int option) option" where
  "cursor_at s cid = map_option (\<lambda>c. (style_left c, style_top c)) (map_of (cursors s) cid)"

text \<open>
  A batch of two samples without anchor, at offsets 0 and 50, sent by participant A with
  base timestamp 1000.
\<close>

definition sample_a :: position where
  "sample_a = \<lparr>pos_x = 10, pos_y = 10, xElement = 0, yElement = 0, pos_time = 0, pos_element = []\<rparr>"

definition sample_b :: position where
  "sample_b = \<lparr>pos_x = 20, pos_y = 15, xElement = 0, yElement = 0, pos_time = 50, pos_element = []\<rparr>"

definition batch_A :: presenceMsg where
  "batch_A = \<lparr>msg_clientId = ''A'',
     msg_data = \<lparr>data_color = ''#00FF00'', data_positions = Some [sample_a, sample_b],
                 baseTimestamp = Some 1000\<rparr>\<rparr>"

text \<open>
  A page whose element under the pointer carries the utility class \<^verbatim>\<open>w-1/2\<close>. The selector
  the capturing side builds for it, \<^verbatim>\<open>.w-1/2\<close>, is not a valid selector: \<^verbatim>\<open>querySelectorAll\<close>
  throws on it.
\<close>

definition half_width :: dom_element where
  "half_width = \<lparr>className = ''w-1/2'', elem_id = [],
     getBoundingClientRect = Some \<lparr>rect_left = 100, rect_top = 40\<rparr>\<rparr>"

definition utility_page :: document where
  "utility_page = \<lparr>elementFromPoint = (\<lambda>vx vy. Some half_width),
     querySelectorAll = (\<lambda>sel. if sel = ''.w-1/2'' then Inl SyntaxError else Inr [])\<rparr>"

definition over_half_width :: mouse_event where
  "over_half_width = \<lparr>clientX = 130, clientY = 60, pageX = 130, pageY = 60\<rparr>"

definition sample_h :: position where
  "sample_h = \<lparr>pos_x = 130, pos_y = 60, xElement = 30, yElement = 20, pos_time = 0,
     pos_element = ''.w-1/2''\<rparr>"

definition batch_h :: presenceMsg where
  "batch_h = \<lparr>msg_clientId = ''User-s'',
     msg_data = \<lparr>data_color = ''#1A2B3C'', data_positions = Some [sample_h],
                 baseTimestamp = None\<rparr>\<rparr>"

text \<open>
  A page with two elements of class \<^verbatim>\<open>item\<close> and one of class \<^verbatim>\<open>title\<close>, a receiving session
  that already draws a cursor for A, and a sample anchored to each class.
\<close>

definition item1 :: dom_element where
  "item1 = \<lparr>className = ''item'', elem_id = [],
     getBoundingClientRect = Some \<lparr>rect_left = 100, rect_top = 40\<rparr>\<rparr>"

definition item2 :: dom_element where
  "item2 = \<lparr>className = ''item'', elem_id = [],
     getBoundingClientRect = Some \<lparr>rect_left = 100, rect_top = 80\<rparr>\<rparr>"

definition heading :: dom_element where
  "heading = \<lparr>className = ''title'', elem_id = [],
     getBoundingClientRect = Some \<lparr>rect_left = 300, rect_top = 8\<rparr>\<rparr>"

definition list_page :: document where
  "list_page = \<lparr>elementFromPoint = (\<lambda>vx vy. Some item1),
     querySelectorAll = (\<lambda>sel. if sel = ''.item'' then Inr [item1, item2]
                               else if sel = ''.title'' then Inr [heading] else Inr [])\<rparr>"

definition blank_cursor :: cursor where
  "blank_cursor = \<lparr>style_backgroundColor = ''#00FF00'', title = ''A'',
     style_left = None, style_top = None\<rparr>"

definition tracking_A :: state where
  "tracking_A = enabled0\<lparr>cursors := [(''A'', blank_cursor)]\<rparr>"

definition sample_item :: position where
  "sample_item = \<lparr>pos_x = 130, pos_y = 60, xElement = 30, yElement = 20, pos_time = 0,
     pos_element = ''.item''\<rparr>"

definition sample_title :: position where
  "sample_title = \<lparr>pos_x = 130, pos_y = 60, xElement = 30, yElement = 20, pos_time = 0,
     pos_element = ''.title''\<rparr>"

text \<open>
  Two pointer moves over the first item of the list page, 15 ms apart, and the samples the
  listener builds for them when the first one opens the batch.
\<close>

definition over_item :: mouse_event where
  "over_item = \<lparr>clientX = 130, clientY = 60, pageX = 130, pageY = 60\<rparr>"

definition near_item :: mouse_event where
  "near_item = \<lparr>clientX = 140, clientY = 70, pageX = 140, pageY = 70\<rparr>"

definition captured_1 :: position where
  "captured_1 = \<lparr>pos_x = 130, pos_y = 60, xElement = 30, yElement = 20, pos_time = 0,
     pos_element = ''.item''\<rparr>"

definition captured_2 :: position where
  "captured_2 = \<lparr>pos_x = 140, pos_y = 70, xElement = 40, yElement = 30, pos_time = 15,
     pos_element = ''.item''\<rparr>"

text \<open>A batch of A with a base timestamp older than that of the batch above.\<close>

definition sample_old :: position where
  "sample_old = \<lparr>pos_x = 1, pos_y = 1, xElement = 0, yElement = 0, pos_time = 0, pos_element = []\<rparr>"

definition batch_old :: presenceMsg where
  "batch_old = \<lparr>msg_clientId = ''A'',
     msg_data = \<lparr>data_color = ''#00FF00'', data_positions = Some [sample_old],
                 baseTimestamp = Some 500\<rparr>\<rparr>"

text \<open>A batch of A whose only sample has the offset \<open>2\<^sup>3\<^sup>1\<close>.\<close>

definition sample_far :: position where
  "sample_far = \<lparr>pos_x = 10, pos_y = 10, xElement = 0, yElement = 0, pos_time = 2147483648,
     pos_element = []\<rparr>"

definition batch_far :: presenceMsg where
  "batch_far = \<lparr>msg_clientId = ''A'',
     msg_data = \<lparr>data_color = ''#00FF00'', data_positions = Some [sample_far],
                 baseTimestamp = None\<rparr>\<rparr>"

section \<open>Auxiliary facts\<close>

lemma fold_setTimeout_eq:
  "fold (\<lambda>p. setTimeout now (f p) (pos_time p)) ps s =
     s\<lparr>timers := timers s @ map (\<lambda>p. (now + timerDelay (pos_time p), f p)) ps\<rparr>"
  by (induction ps arbitrary: s) (simp_all add: setTimeout_def)

lemma timerDelay_in_range: "0 \<le> d \<Longrightarrow> d < 2147483648 \<Longrightarrow> timerDelay d = d"
  by (simp add: timerDelay_def toInt32_def)

lemma earliest_in_set: "earliest ts = Some t \<Longrightarrow> t \<in> set ts"
  by (induction ts arbitrary: t) (auto split: option.splits if_splits)

lemma earliest_least: "earliest ts = Some t \<Longrightarrow> u \<in> set ts \<Longrightarrow> fst t \<le> fst u"
proof (induction ts arbitrary: t u)
  case Nil
  then show ?case by simp
next
  case (Cons a ts)
  show ?case
  proof (cases "earliest ts")
    case None
    then have "ts = []" by (cases ts) (simp_all split: option.splits if_splits)
    with Cons.prems None show ?thesis by simp
  next
    case (Some v)
    have least: "\<And>w. w \<in> set ts \<Longrightarrow> fst v \<le> fst w"
      using Cons.IH [OF Some] by blast
    show ?thesis
    proof (cases "fst a \<le> fst v")
      case True
      with Some Cons.prems have "t = a" by simp
      with True least Cons.prems(2) show ?thesis by fastforce
    next
      case False
      with Some Cons.prems have "t = v" by simp
      with False least Cons.prems(2) show ?thesis by fastforce
    qed
  qed
qed

lemma fold_delete_all:
  "fst ` set al \<subseteq> set ks \<Longrightarrow> fold AList.delete ks al = []"
proof (induction ks arbitrary: al)
  case Nil
  then show ?case by simp
next
  case (Cons k ks)
  have "fst ` set (AList.delete k al) \<subseteq> set ks"
    using Cons.prems by (auto simp: AList.delete_eq)
  then show ?case using Cons.IH by simp
qed

lemma fold_delete_state:
  "fold (\<lambda>k s'. s'\<lparr>cursors := AList.delete k (cursors s')\<rparr>) ks s =
     s\<lparr>cursors := fold AList.delete ks (cursors s)\<rparr>"
  by (induction ks arbitrary: s) simp_all

lemma clearCursors_eq: "clearCursors s = s\<lparr>cursors := []\<rparr>"
  by (simp add: clearCursors_def fold_delete_state fold_delete_all)

lemma getCursor_own: "map_of (cursors s) cid = Some c \<Longrightarrow> getCursor s cid = Own c"
  by (simp add: getCursor_def)

lemma getCursor_missing:
  "getCursor s cid = Missing \<longleftrightarrow> map_of (cursors s) cid = None \<and> cid \<notin> set objectPrototypeNames"
  by (simp add: getCursor_def split: option.splits)

lemma moveCursor_at:
  "map_of (cursors s) cid = Some c \<Longrightarrow>
   \<exists>s'. moveCursor cid l t s = Inr s' \<and>
        map_of (cursors s') cid = Some (c\<lparr>style_left := Some l, style_top := Some t\<rparr>)"
  by (simp add: moveCursor_def getCursor_own update_conv')

lemma onPresenceUpdate_timers:
  "cursorCommunicationEnabled s \<Longrightarrow> data_positions (msg_data m) = Some ps \<Longrightarrow>
   timers (onPresenceUpdate m now s) =
     timers s @ map (\<lambda>p. (now + timerDelay (pos_time p), ReplayUpdate (msg_clientId m) p)) ps"
  by (simp add: onPresenceUpdate_def fold_setTimeout_eq createCursor_def)

section \<open>Capture outside the document\<close>

text \<open>
  C8. A pointer move over no element should give a sample with no anchor and the page
  coordinates. In the script, \<^verbatim>\<open>elementFromPoint\<close> returns \<^verbatim>\<open>null\<close> there and line 29 reads
  \<^verbatim>\<open>className\<close> of it: the listener throws a \<^verbatim>\<open>TypeError\<close> and no sample is recorded.
\<close>

theorem mousemove_outside_throws:
  "mousemove blank_page outside 1000 enabled0 = Inl TypeError \<and>
   positions (step (MouseMove blank_page outside 1000) enabled0) = []"
  by (simp add: mousemove_def capture_def blank_page_def outside_def enabled0_def init_def
      swallow_def)

section \<open>The presence snapshot\<close>

text \<open>
  C9. Every member of the fetched presence set should get a cursor entry. In the script, the
  \<^verbatim>\<open>return\<close> of line 171 ends the whole callback at the first member without positions:
  with the idle member listed first, the member after it gets no entry, while in the other
  order both do.
\<close>

theorem snapshot_stops_at_idle_member:
  "map fst (cursors (presenceGetCallback False [idle_member, active_member] 0 enabled0))
     = [''User-a''] \<and>
   map fst (cursors (presenceGetCallback False [active_member, idle_member] 0 enabled0))
     = [''User-b'', ''User-a'']"
  by (simp add: presenceGetCallback_def idle_member_def active_member_def enabled0_def init_def
      createCursor_def getCursor_def objectPrototypeNames_def)

section \<open>Replay of a received batch\<close>

text \<open>
  A batch received while the session is disabled sets no timer (line 66), and for a sample
  with the offset \<open>2\<^sup>3\<^sup>1\<close> the timer is due at the time of receipt, not \<open>2\<^sup>3\<^sup>1\<close> milliseconds
  later: the delay does not fit the timer's 32 bits.
\<close>

theorem update_schedule_limits:
  "\<not> cursorCommunicationEnabled (init ''#1A2B3C'') \<and>
   timers (onPresenceUpdate batch_A 2000 (init ''#1A2B3C'')) = [] \<and>
   cursorCommunicationEnabled enabled0 \<and>
   pos_time sample_far = 2147483648 \<and>
   timers (onPresenceUpdate batch_far 2000 enabled0) = [(2000, ReplayUpdate ''A'' sample_far)]"
  by (simp add: onPresenceUpdate_def createCursor_def getCursor_def objectPrototypeNames_def
      setTimeout_def timerDelay_def toInt32_def enabled0_def init_def batch_A_def batch_far_def
      sample_far_def)

text \<open>
  C1, amended. A batch received while the session is enabled, with offsets from 0 to
  \<open>2\<^sup>3\<^sup>1 - 1\<close>, sets one timer per sample, in the order of the samples, due at the time of
  receipt plus the sample's offset. Unless the sender's id is the name of an inherited
  property, the participant has a cursor entry from then on; and the timer of a sample
  without anchor, fired while the entry exists, puts the cursor at the sample's page
  coordinates.
\<close>

theorem update_schedules_each_sample:
  assumes "cursorCommunicationEnabled s"
    and "data_positions (msg_data m) = Some ps"
    and "\<forall>p\<in>set ps. 0 \<le> pos_time p \<and> pos_time p < 2147483648"
  shows "timers (onPresenceUpdate m now s) =
           timers s @ map (\<lambda>p. (now + pos_time p, ReplayUpdate (msg_clientId m) p)) ps \<and>
         (msg_clientId m \<notin> set objectPrototypeNames \<longrightarrow>
            map_of (cursors (onPresenceUpdate m now s)) (msg_clientId m) \<noteq> None) \<and>
         (\<forall>p\<in>set ps. \<forall>doc s' c.
            pos_element p = [] \<and> map_of (cursors s') (msg_clientId m) = Some c \<longrightarrow>
            (\<exists>s''. fire doc (ReplayUpdate (msg_clientId m) p) s' = Inr s'' \<and>
                   map_of (cursors s'') (msg_clientId m) =
                     Some (c\<lparr>style_left := Some (pos_x p), style_top := Some (pos_y p)\<rparr>)))"
proof (intro conjI ballI allI impI)
  have "map (\<lambda>p. (now + timerDelay (pos_time p), ReplayUpdate (msg_clientId m) p)) ps =
        map (\<lambda>p. (now + pos_time p, ReplayUpdate (msg_clientId m) p)) ps"
    using assms(3) by (intro map_cong) (simp_all add: timerDelay_in_range)
  then show "timers (onPresenceUpdate m now s) =
           timers s @ map (\<lambda>p. (now + pos_time p, ReplayUpdate (msg_clientId m) p)) ps"
    using onPresenceUpdate_timers [OF assms(1,2)] by simp
next
  assume "msg_clientId m \<notin> set objectPrototypeNames"
  then show "map_of (cursors (onPresenceUpdate m now s)) (msg_clientId m) \<noteq> None"
    using assms(1,2)
    by (simp add: onPresenceUpdate_def fold_setTimeout_eq createCursor_def map_add_def
        getCursor_missing)
next
  fix p :: position and doc :: document and s' :: state and c :: cursor
  assume "p \<in> set ps"
    and h: "pos_element p = [] \<and> map_of (cursors s') (msg_clientId m) = Some c"
  then show "\<exists>s''. fire doc (ReplayUpdate (msg_clientId m) p) s' = Inr s'' \<and>
                   map_of (cursors s'') (msg_clientId m) =
                     Some (c\<lparr>style_left := Some (pos_x p), style_top := Some (pos_y p)\<rparr>)"
    using moveCursor_at [of s' "msg_clientId m" c "pos_x p" "pos_y p"]
    by (simp add: replayUpdate_def getCursor_own)
qed

text \<open>
  The scenario of the specification: the batch of A received at local time 2000 gives timers
  at 2000 and 2050, and firing them moves the cursor to (10, 10) and then to (20, 15).
\<close>

theorem update_schedules_scenario:
  "cursorCommunicationEnabled enabled0 \<and>
   data_positions (msg_data batch_A) = Some [sample_a, sample_b] \<and>
   0 \<le> pos_time sample_a \<and> pos_time sample_a < 2147483648 \<and>
   0 \<le> pos_time sample_b \<and> pos_time sample_b < 2147483648 \<and>
   ''A'' \<notin> set objectPrototypeNames \<and>
   timers (onPresenceUpdate batch_A 2000 enabled0) =
     [(2000, ReplayUpdate ''A'' sample_a), (2050, ReplayUpdate ''A'' sample_b)] \<and>
   cursor_at (run [PresenceUpdateMsg batch_A 2000] enabled0) ''A'' = Some (None, None) \<and>
   cursor_at (run [PresenceUpdateMsg batch_A 2000, TimerFire blank_page] enabled0) ''A''
     = Some (Some 10, Some 10) \<and>
   cursor_at (run [PresenceUpdateMsg batch_A 2000, TimerFire blank_page, TimerFire blank_page]
       enabled0) ''A''
     = Some (Some 20, Some 15)"
proof -
  have e: "cursorCommunicationEnabled enabled0"
    by (simp add: enabled0_def)
  have d: "data_positions (msg_data batch_A) = Some [sample_a, sample_b]"
    by (simp add: batch_A_def)
  have t: "\<forall>p\<in>set [sample_a, sample_b]. 0 \<le> pos_time p \<and> pos_time p < 2147483648"
    by (simp add: sample_a_def sample_b_def)
  have n: "''A'' \<notin> set objectPrototypeNames"
    by (simp add: objectPrototypeNames_def)
  have "timers (onPresenceUpdate batch_A 2000 enabled0) =
     [(2000, ReplayUpdate ''A'' sample_a), (2050, ReplayUpdate ''A'' sample_b)]"
    using update_schedules_each_sample [OF e d t, of 2000]
    by (simp add: enabled0_def init_def batch_A_def sample_a_def sample_b_def)
  moreover have "cursor_at (run [PresenceUpdateMsg batch_A 2000] enabled0) ''A'' = Some (None, None)"
    by (simp add: run_def cursor_at_def onPresenceUpdate_def createCursor_def getCursor_def objectPrototypeNames_def setTimeout_def timerDelay_def toInt32_def
        enabled0_def init_def batch_A_def)
  moreover have "cursor_at (run [PresenceUpdateMsg batch_A 2000, TimerFire blank_page] enabled0) ''A''
     = Some (Some 10, Some 10)"
    by (simp add: run_def cursor_at_def onPresenceUpdate_def createCursor_def getCursor_def objectPrototypeNames_def setTimeout_def timerDelay_def toInt32_def
        enabled0_def init_def batch_A_def sample_a_def sample_b_def swallow_def
        replayUpdate_def moveCursor_def getCursor_def objectPrototypeNames_def blank_page_def)
  moreover have "cursor_at (run [PresenceUpdateMsg batch_A 2000, TimerFire blank_page, TimerFire blank_page]
       enabled0) ''A'' = Some (Some 20, Some 15)"
    by (simp add: run_def cursor_at_def onPresenceUpdate_def createCursor_def getCursor_def objectPrototypeNames_def setTimeout_def timerDelay_def toInt32_def
        enabled0_def init_def batch_A_def sample_a_def sample_b_def swallow_def
        replayUpdate_def moveCursor_def getCursor_def objectPrototypeNames_def blank_page_def)
  ultimately show ?thesis using e d t n by simp
qed

section \<open>Anchors at replay\<close>

text \<open>
  C2. Every replayed sample should leave the cursor at a defined position, the page
  coordinates when the anchor cannot be resolved. In the script, a pointer move over an
  element of class \<^verbatim>\<open>w-1/2\<close> is sent with the selector \<^verbatim>\<open>.w-1/2\<close> (only spaces and colons
  are rewritten); on the receiving side \<^verbatim>\<open>querySelectorAll\<close> throws on it at line 99, the
  timer callback ends before either assignment, and the new cursor stays without position.
\<close>

theorem replay_invalid_selector_throws:
  "channel_calls (run [MouseMove utility_page over_half_width 1000, IntervalTick] enabled0)
     = [PresenceUpdate (msg_data batch_h)] \<and>
   timers (run [PresenceUpdateMsg batch_h 2000] enabled0)
     = [(2000, ReplayUpdate ''User-s'' sample_h)] \<and>
   replayUpdate utility_page ''User-s'' sample_h (run [PresenceUpdateMsg batch_h 2000] enabled0)
     = Inl SyntaxError \<and>
   cursor_at (run [PresenceUpdateMsg batch_h 2000, TimerFire utility_page] enabled0) ''User-s''
     = Some (None, None)"
proof (intro conjI)
  show "channel_calls (run [MouseMove utility_page over_half_width 1000, IntervalTick] enabled0)
     = [PresenceUpdate (msg_data batch_h)]"
    by (simp add: run_def mousemove_def capture_def swallow_def flush_def baseTime_unset_def
        elementClassAndID_def replaceAll_def utility_page_def half_width_def over_half_width_def
        enabled0_def init_def batch_h_def sample_h_def)
  show "timers (run [PresenceUpdateMsg batch_h 2000] enabled0)
     = [(2000, ReplayUpdate ''User-s'' sample_h)]"
    by (simp add: run_def onPresenceUpdate_def createCursor_def getCursor_def objectPrototypeNames_def setTimeout_def timerDelay_def toInt32_def enabled0_def
        init_def batch_h_def sample_h_def)
  show "replayUpdate utility_page ''User-s'' sample_h (run [PresenceUpdateMsg batch_h 2000] enabled0)
     = Inl SyntaxError"
    by (simp add: run_def onPresenceUpdate_def createCursor_def getCursor_def objectPrototypeNames_def setTimeout_def timerDelay_def toInt32_def enabled0_def
        init_def batch_h_def sample_h_def replayUpdate_def utility_page_def)
  show "cursor_at (run [PresenceUpdateMsg batch_h 2000, TimerFire utility_page] enabled0) ''User-s''
     = Some (None, None)"
    by (simp add: run_def onPresenceUpdate_def createCursor_def getCursor_def objectPrototypeNames_def setTimeout_def timerDelay_def toInt32_def enabled0_def
        init_def batch_h_def sample_h_def replayUpdate_def utility_page_def swallow_def
        cursor_at_def)
qed

text \<open>
  C10. When the timer of a sample with a selector fires and the lookup returns, the element
  is used only if it is the single match: with no match or with several the cursor goes to
  the sample's page coordinates, with exactly one it goes to the element's box origin plus
  the sample's offset in the element.
\<close>

theorem anchor_needs_single_match:
  assumes "map_of (cursors s) cid = Some c"
    and "pos_element p \<noteq> []"
    and "querySelectorAll doc (pos_element p) = Inr els"
  shows "(length els \<noteq> 1 \<longrightarrow>
            (\<exists>s'. replayUpdate doc cid p s = Inr s' \<and>
                  map_of (cursors s') cid =
                    Some (c\<lparr>style_left := Some (pos_x p), style_top := Some (pos_y p)\<rparr>))) \<and>
         (\<forall>el r. els = [el] \<and> getBoundingClientRect el = Some r \<longrightarrow>
            (\<exists>s'. replayUpdate doc cid p s = Inr s' \<and>
                  map_of (cursors s') cid =
                    Some (c\<lparr>style_left := Some (rect_left r + xElement p),
                            style_top := Some (rect_top r + yElement p)\<rparr>)))"
proof (intro conjI impI allI)
  assume "length els \<noteq> 1"
  then have "(case Some els of Some [el] \<Rightarrow> Some el | _ \<Rightarrow> None) = None"
    by (cases els rule: list.exhaust; simp split: list.splits)
  then show "\<exists>s'. replayUpdate doc cid p s = Inr s' \<and>
                  map_of (cursors s') cid =
                    Some (c\<lparr>style_left := Some (pos_x p), style_top := Some (pos_y p)\<rparr>)"
    using assms moveCursor_at [OF assms(1), of "pos_x p" "pos_y p"]
    by (simp add: replayUpdate_def getCursor_own)
next
  fix el :: dom_element and r :: rect
  assume "els = [el] \<and> getBoundingClientRect el = Some r"
  then show "\<exists>s'. replayUpdate doc cid p s = Inr s' \<and>
                  map_of (cursors s') cid =
                    Some (c\<lparr>style_left := Some (rect_left r + xElement p),
                            style_top := Some (rect_top r + yElement p)\<rparr>)"
    using assms
      moveCursor_at [OF assms(1), of "rect_left r + xElement p" "rect_top r + yElement p"]
    by (simp add: replayUpdate_def getCursor_own)
qed

text \<open>
  On the list page, with a cursor drawn for A: the selector \<^verbatim>\<open>.item\<close> has two matches and
  the cursor goes to the page coordinates (130, 60); \<^verbatim>\<open>.title\<close> has one match, at (300, 8),
  and the cursor goes to (330, 28).
\<close>

theorem anchor_needs_single_match_witness:
  "map_of (cursors tracking_A) ''A'' = Some blank_cursor \<and>
   pos_element sample_item \<noteq> [] \<and>
   querySelectorAll list_page (pos_element sample_item) = Inr [item1, item2] \<and>
   length [item1, item2] \<noteq> 1 \<and>
   map_sum id (\<lambda>s'. cursor_at s' ''A'') (replayUpdate list_page ''A'' sample_item tracking_A)
     = Inr (Some (Some 130, Some 60)) \<and>
   querySelectorAll list_page (pos_element sample_title) = Inr [heading] \<and>
   getBoundingClientRect heading = Some \<lparr>rect_left = 300, rect_top = 8\<rparr> \<and>
   map_sum id (\<lambda>s'. cursor_at s' ''A'') (replayUpdate list_page ''A'' sample_title tracking_A)
     = Inr (Some (Some 330, Some 28))"
proof -
  have c: "map_of (cursors tracking_A) ''A'' = Some blank_cursor"
    by (simp add: tracking_A_def)
  have q2: "querySelectorAll list_page (pos_element sample_item) = Inr [item1, item2]"
    by (simp add: list_page_def sample_item_def)
  have q1: "querySelectorAll list_page (pos_element sample_title) = Inr [heading]"
    by (simp add: list_page_def sample_title_def)
  have n2: "pos_element sample_item \<noteq> []" and n1: "pos_element sample_title \<noteq> []"
    by (simp_all add: sample_item_def sample_title_def)
  have r: "getBoundingClientRect heading = Some \<lparr>rect_left = 300, rect_top = 8\<rparr>"
    by (simp add: heading_def)
  have "map_sum id (\<lambda>s'. cursor_at s' ''A'') (replayUpdate list_page ''A'' sample_item tracking_A)
     = Inr (Some (Some 130, Some 60))"
    using anchor_needs_single_match [OF c n2 q2]
    by (auto simp add: cursor_at_def sample_item_def)
  moreover
  have "map_sum id (\<lambda>s'. cursor_at s' ''A'') (replayUpdate list_page ''A'' sample_title tracking_A)
     = Inr (Some (Some 330, Some 28))"
    using anchor_needs_single_match [OF c n1 q1] r
    by (auto simp add: cursor_at_def sample_title_def)
  ultimately show ?thesis using c q2 q1 n2 r by simp
qed

section \<open>Frame facts: what each listener leaves alone\<close>

lemma sent_batches_append:
  "sent_batches (cs @ ds) = sent_batches cs @ sent_batches ds"
  by (induction cs rule: sent_batches.induct) simp_all

lemma moveCursor_frame:
  assumes "moveCursor cid l t s = Inr s'"
  shows "positions s' = positions s \<and> channel_calls s' = channel_calls s \<and>
         cursorCommunicationEnabled s' = cursorCommunicationEnabled s \<and> timers s' = timers s"
  using assms by (auto simp add: moveCursor_def getCursor_def objectPrototypeNames_def split: property.splits)

lemma replayUpdate_frame:
  assumes "replayUpdate doc cid p s = Inr s'"
  shows "positions s' = positions s \<and> channel_calls s' = channel_calls s \<and>
         cursorCommunicationEnabled s' = cursorCommunicationEnabled s"
  using assms
  by (auto simp add: replayUpdate_def dest: moveCursor_frame
      split: if_splits sum.splits option.splits list.splits)

lemma replaySnapshot_frame:
  assumes "replaySnapshot cid p s = Inr s'"
  shows "positions s' = positions s \<and> channel_calls s' = channel_calls s \<and>
         cursorCommunicationEnabled s' = cursorCommunicationEnabled s"
  using assms
  by (auto simp add: replaySnapshot_def dest: moveCursor_frame split: if_splits)

lemma onPresenceLeave_frame:
  "positions (swallow s (onPresenceLeave m s)) = positions s \<and>
   channel_calls (swallow s (onPresenceLeave m s)) = channel_calls s \<and>
   cursorCommunicationEnabled (swallow s (onPresenceLeave m s)) = cursorCommunicationEnabled s"
  by (simp add: onPresenceLeave_def swallow_def split: property.splits)

lemma fire_frame:
  "positions (swallow s (fire doc cb s)) = positions s \<and>
   channel_calls (swallow s (fire doc cb s)) = channel_calls s \<and>
   cursorCommunicationEnabled (swallow s (fire doc cb s)) = cursorCommunicationEnabled s"
proof (cases cb)
  case (ReplayUpdate cid p)
  then show ?thesis
    using replayUpdate_frame [of doc cid p s]
    by (cases "replayUpdate doc cid p s") (simp_all add: swallow_def)
next
  case (ReplaySnapshot cid p)
  then show ?thesis
    using replaySnapshot_frame [of cid p s]
    by (cases "replaySnapshot cid p s") (simp_all add: swallow_def)
qed

lemma fire_no_cursors:
  assumes "cursors s = []"
  shows "swallow s (fire doc cb s) = s"
proof (cases cb)
  case (ReplayUpdate cid p)
  have "moveCursor cid l t s = Inl TypeError" for l t
    using assms by (simp add: moveCursor_def getCursor_def)
  then show ?thesis
    using ReplayUpdate
    by (simp add: swallow_def replayUpdate_def split: sum.splits option.splits list.splits)
next
  case (ReplaySnapshot cid p)
  have "moveCursor cid l t s = Inl TypeError" for l t
    using assms by (simp add: moveCursor_def getCursor_def)
  then show ?thesis
    using ReplaySnapshot by (simp add: swallow_def replaySnapshot_def)
qed

lemma fire_timers: "timers (swallow s (fire doc cb s)) = timers s"
proof (cases "fire doc cb s")
  case (Inl ex)
  then show ?thesis by (simp add: swallow_def)
next
  case (Inr s')
  then have "timers s' = timers s"
    by (cases cb)
       (auto simp add: replayUpdate_def replaySnapshot_def dest: moveCursor_frame
          split: if_splits sum.splits option.splits list.splits)
  with Inr show ?thesis by (simp add: swallow_def)
qed

lemma presenceSetLoop_frame:
  "positions (presenceSetLoop ms now s) = positions s \<and>
   channel_calls (presenceSetLoop ms now s) = channel_calls s \<and>
   cursorCommunicationEnabled (presenceSetLoop ms now s) = cursorCommunicationEnabled s"
  by (induction ms arbitrary: s)
     (simp_all add: Let_def createCursor_def getCursor_def objectPrototypeNames_def fold_setTimeout_eq split: option.splits)

lemma onPresenceUpdate_frame:
  "positions (onPresenceUpdate m now s) = positions s \<and>
   channel_calls (onPresenceUpdate m now s) = channel_calls s \<and>
   cursorCommunicationEnabled (onPresenceUpdate m now s) = cursorCommunicationEnabled s"
  by (simp add: onPresenceUpdate_def Let_def createCursor_def getCursor_def objectPrototypeNames_def fold_setTimeout_eq
      split: option.splits)

lemma timer_step_frame:
  "positions (step (TimerFire doc) s) = positions s \<and>
   channel_calls (step (TimerFire doc) s) = channel_calls s \<and>
   cursorCommunicationEnabled (step (TimerFire doc) s) = cursorCommunicationEnabled s"
proof (cases "earliest (timers s)")
  case None
  then show ?thesis by simp
next
  case (Some tc)
  then show ?thesis
    using fire_frame [of "s\<lparr>timers := remove1 tc (timers s)\<rparr>" doc "snd tc"]
    by (simp add: Let_def)
qed

lemma step_sent:
  "sent_batches (channel_calls (step ev s)) =
     (if ev = IntervalTick \<and> cursorCommunicationEnabled s \<and> positions s \<noteq> []
      then sent_batches (channel_calls s) @ [positions s]
      else sent_batches (channel_calls s))"
proof (cases ev)
  case (MouseMove doc e now)
  then show ?thesis
    by (simp add: mousemove_def swallow_def split: sum.splits prod.splits)
next
  case IntervalTick
  then show ?thesis by (simp add: flush_def sent_batches_append)
next
  case (PresenceUpdateMsg m now)
  then show ?thesis by (simp add: onPresenceUpdate_frame)
next
  case (PresenceLeaveMsg m)
  then show ?thesis by (simp add: onPresenceLeave_frame)
next
  case (PresenceGetResult err ms now)
  then show ?thesis by (simp add: presenceGetCallback_def presenceSetLoop_frame)
next
  case (RuntimeMessage msg)
  then show ?thesis
    by (simp add: onMessage_def Let_def clearCursors_eq sent_batches_append)
next
  case (TimerFire doc)
  then show ?thesis using timer_step_frame [of doc s] by simp
qed

lemma step_positions:
  "positions (step ev s) =
     (if ev = IntervalTick \<and> cursorCommunicationEnabled s then [] 
      else positions s @ captured_by ev s)"
proof (cases ev)
  case (MouseMove doc e now)
  then show ?thesis
    by (simp add: mousemove_def swallow_def captured_by_def split: sum.splits prod.splits)
next
  case IntervalTick
  then show ?thesis by (simp add: flush_def captured_by_def)
next
  case (PresenceUpdateMsg m now)
  then show ?thesis by (simp add: onPresenceUpdate_frame captured_by_def)
next
  case (PresenceLeaveMsg m)
  then show ?thesis by (simp add: onPresenceLeave_frame captured_by_def)
next
  case (PresenceGetResult err ms now)
  then show ?thesis by (simp add: presenceGetCallback_def presenceSetLoop_frame captured_by_def)
next
  case (RuntimeMessage msg)
  then show ?thesis
    by (simp add: onMessage_def Let_def clearCursors_eq captured_by_def)
next
  case (TimerFire doc)
  then show ?thesis using timer_step_frame [of doc s] by (simp add: captured_by_def)
qed

lemma step_conservation:
  "concat (sent_batches (channel_calls (step ev s))) @ positions (step ev s) =
     concat (sent_batches (channel_calls s)) @ positions s @ captured_by ev s"
  by (simp add: step_sent step_positions captured_by_def)

lemma run_conservation:
  "concat (sent_batches (channel_calls (run evs s))) @ positions (run evs s) =
     concat (sent_batches (channel_calls s)) @ positions s @ captured evs s"
proof (induction evs arbitrary: s)
  case Nil
  then show ?case by (simp add: run_def)
next
  case (Cons ev evs)
  have "concat (sent_batches (channel_calls (run (ev # evs) s))) @ positions (run (ev # evs) s) =
        concat (sent_batches (channel_calls (step ev s))) @ positions (step ev s)
          @ captured evs (step ev s)"
    using Cons.IH [of "step ev s"] by (simp add: run_def)
  also have "\<dots> = concat (sent_batches (channel_calls s)) @ positions s @ captured (ev # evs) s"
    using step_conservation [of ev s] by simp
  finally show ?case .
qed

lemma run_snoc: "run (evs @ [ev]) s = step ev (run evs s)"
  by (simp add: run_def)

lemma step_disabled:
  assumes "\<not> cursorCommunicationEnabled s"
  shows "sent_batches (channel_calls (step ev s)) = sent_batches (channel_calls s)"
    and "positions (step ev s) = positions s"
    and "ev \<noteq> toggle \<Longrightarrow> \<not> cursorCommunicationEnabled (step ev s)"
proof -
  show "sent_batches (channel_calls (step ev s)) = sent_batches (channel_calls s)"
    using assms by (simp add: step_sent)
  show "positions (step ev s) = positions s"
    using assms by (simp add: step_positions captured_by_def split: event.splits)
  show "ev \<noteq> toggle \<Longrightarrow> \<not> cursorCommunicationEnabled (step ev s)"
  proof (cases ev)
    case (MouseMove doc e now)
    then show ?thesis using assms by (simp add: mousemove_def swallow_def)
  next
    case IntervalTick
    then show ?thesis using assms by (simp add: flush_def)
  next
    case (PresenceUpdateMsg m now)
    then show ?thesis using assms by (simp add: onPresenceUpdate_frame)
  next
    case (PresenceLeaveMsg m)
    then show ?thesis using assms by (simp add: onPresenceLeave_frame)
  next
    case (PresenceGetResult err ms now)
    then show ?thesis using assms by (simp add: presenceGetCallback_def presenceSetLoop_frame)
  next
    case (RuntimeMessage msg)
    assume "ev \<noteq> toggle"
    with RuntimeMessage show ?thesis using assms by (simp add: onMessage_def toggle_def)
  next
    case (TimerFire doc)
    then show ?thesis using assms timer_step_frame [of doc s] by simp
  qed
qed

section \<open>Batching\<close>

text \<open>
  C3. Along every run from the initial state, the batches handed to the channel, in order,
  followed by the samples still in the accumulator are exactly the samples captured, in the
  order of capture: no sample is dropped or sent twice. After an interval tick of an enabled
  session the accumulator is empty, so the samples of the sent batches are the captured
  samples and their numbers agree. A sample is captured by a pointer move that the listener
  handles while enabled and turns into a position object.
\<close>

theorem captured_samples_are_sent:
  "concat (sent_batches (channel_calls (run evs (init col)))) @ positions (run evs (init col)) =
     captured evs (init col) \<and>
   (cursorCommunicationEnabled (run evs (init col)) \<longrightarrow>
      concat (sent_batches (channel_calls (run (evs @ [IntervalTick]) (init col)))) =
        captured evs (init col) \<and>
      sum_list (map length (sent_batches (channel_calls (run (evs @ [IntervalTick]) (init col)))))
        = length (captured evs (init col)))"
proof (intro conjI impI)
  let ?r = "run evs (init col)"
  show c: "concat (sent_batches (channel_calls ?r)) @ positions ?r = captured evs (init col)"
    using run_conservation [of evs "init col"] by (simp add: init_def)
  assume en: "cursorCommunicationEnabled ?r"
  then have "concat (sent_batches (channel_calls (run (evs @ [IntervalTick]) (init col)))) =
        concat (sent_batches (channel_calls ?r)) @ positions ?r"
    using step_sent [of IntervalTick ?r] by (simp add: run_snoc)
  with c show f: "concat (sent_batches (channel_calls (run (evs @ [IntervalTick]) (init col)))) =
        captured evs (init col)"
    by simp
  show "sum_list (map length (sent_batches (channel_calls (run (evs @ [IntervalTick]) (init col)))))
        = length (captured evs (init col))"
    using arg_cong [OF f, of length] by (simp add: length_concat)
qed

text \<open>
  A session is enabled and two pointer moves are captured; the tick that follows sends both
  samples in one batch.
\<close>

theorem captured_samples_are_sent_witness:
  "cursorCommunicationEnabled
     (run [toggle, MouseMove list_page over_item 1000, MouseMove list_page near_item 1015]
        (init ''#1A2B3C'')) \<and>
   captured [toggle, MouseMove list_page over_item 1000, MouseMove list_page near_item 1015]
      (init ''#1A2B3C'') = [captured_1, captured_2] \<and>
   sent_batches (channel_calls
     (run ([toggle, MouseMove list_page over_item 1000, MouseMove list_page near_item 1015]
            @ [IntervalTick]) (init ''#1A2B3C''))) = [[captured_1, captured_2]]"
proof -
  let ?evs = "[toggle, MouseMove list_page over_item 1000, MouseMove list_page near_item 1015]"
  have en: "cursorCommunicationEnabled (run ?evs (init ''#1A2B3C''))"
    by (simp add: run_def toggle_def onMessage_def init_def mousemove_def capture_def
        swallow_def list_page_def item1_def over_item_def near_item_def baseTime_unset_def)
  have cap: "captured ?evs (init ''#1A2B3C'') = [captured_1, captured_2]"
    by (simp add: toggle_def onMessage_def init_def mousemove_def capture_def captured_by_def
        swallow_def list_page_def item1_def over_item_def near_item_def baseTime_unset_def
        elementClassAndID_def replaceAll_def captured_1_def captured_2_def)
  have sent: "sent_batches (channel_calls (run (?evs @ [IntervalTick]) (init ''#1A2B3C'')))
      = [[captured_1, captured_2]]"
    by (simp add: run_def toggle_def onMessage_def init_def mousemove_def capture_def flush_def
        swallow_def list_page_def item1_def over_item_def near_item_def baseTime_unset_def
        elementClassAndID_def replaceAll_def captured_1_def captured_2_def)
  show ?thesis
    using captured_samples_are_sent [of ?evs "''#1A2B3C''"] en cap sent by simp
qed

text \<open>
  The samples waiting when the session is disabled are not discarded. Here one sample is
  captured, the session is disabled and enabled again, and the next tick sends that sample.
\<close>

theorem stale_samples_sent_after_reenable:
  "positions (run [toggle, MouseMove list_page over_item 1000, toggle] (init ''#1A2B3C''))
     = [captured_1] \<and>
   \<not> cursorCommunicationEnabled
       (run [toggle, MouseMove list_page over_item 1000, toggle] (init ''#1A2B3C'')) \<and>
   sent_batches (channel_calls
     (run [toggle, MouseMove list_page over_item 1000, toggle, toggle, IntervalTick]
        (init ''#1A2B3C''))) = [[captured_1]]"
  by (simp add: run_def toggle_def onMessage_def init_def mousemove_def capture_def flush_def
      swallow_def list_page_def item1_def over_item_def baseTime_unset_def clearCursors_eq
      elementClassAndID_def replaceAll_def captured_1_def)

text \<open>
  C4, amended. A disabled session forwards nothing: no event makes it hand a batch to the
  channel, and as long as no toggle message arrives it captures nothing either and stays
  disabled, so the samples waiting at the moment of disable are not sent while the
  session remains disabled.
\<close>

theorem disabled_session_forwards_nothing:
  assumes "\<not> cursorCommunicationEnabled s"
  shows "sent_batches (channel_calls (step ev s)) = sent_batches (channel_calls s) \<and>
         (toggle \<notin> set evs \<longrightarrow>
            sent_batches (channel_calls (run evs s)) = sent_batches (channel_calls s) \<and>
            positions (run evs s) = positions s \<and>
            \<not> cursorCommunicationEnabled (run evs s))"
proof (intro conjI impI)
  show "sent_batches (channel_calls (step ev s)) = sent_batches (channel_calls s)"
    using assms by (rule step_disabled)
  assume "toggle \<notin> set evs"
  then have "sent_batches (channel_calls (run evs s)) = sent_batches (channel_calls s) \<and>
            positions (run evs s) = positions s \<and>
            \<not> cursorCommunicationEnabled (run evs s)"
    using assms
  proof (induction evs arbitrary: s)
    case Nil
    then show ?case by (simp add: run_def)
  next
    case (Cons e es)
    have d: "\<not> cursorCommunicationEnabled (step e s)"
      using Cons.prems by (intro step_disabled) auto
    have "toggle \<notin> set es" using Cons.prems by simp
    from Cons.IH [OF this d] show ?case
      using step_disabled(1,2) [OF Cons.prems(2), of e] by (simp add: run_def)
  qed
  then show "sent_batches (channel_calls (run evs s)) = sent_batches (channel_calls s)"
    and "positions (run evs s) = positions s"
    and "\<not> cursorCommunicationEnabled (run evs s)"
    by simp_all
qed

text \<open>
  A session disabled with one sample waiting: a further pointer move and an interval tick
  send nothing and leave that sample waiting.
\<close>

theorem disabled_session_forwards_nothing_witness:
  "\<not> cursorCommunicationEnabled
       (run [toggle, MouseMove list_page over_item 1000, toggle] (init ''#1A2B3C'')) \<and>
   toggle \<notin> set [MouseMove list_page near_item 1015, IntervalTick] \<and>
   sent_batches (channel_calls
     (run [MouseMove list_page near_item 1015, IntervalTick]
        (run [toggle, MouseMove list_page over_item 1000, toggle] (init ''#1A2B3C'')))) = [] \<and>
   positions
     (run [MouseMove list_page near_item 1015, IntervalTick]
        (run [toggle, MouseMove list_page over_item 1000, toggle] (init ''#1A2B3C'')))
     = [captured_1]"
proof -
  let ?s = "run [toggle, MouseMove list_page over_item 1000, toggle] (init ''#1A2B3C'')"
  have d: "\<not> cursorCommunicationEnabled ?s"
    and p: "positions ?s = [captured_1]"
    and c: "sent_batches (channel_calls ?s) = []"
    by (simp_all add: run_def toggle_def onMessage_def init_def mousemove_def capture_def
      swallow_def list_page_def item1_def over_item_def baseTime_unset_def clearCursors_eq
      elementClassAndID_def replaceAll_def captured_1_def)
  have t: "toggle \<notin> set [MouseMove list_page near_item 1015, IntervalTick]"
    by (simp add: toggle_def)
  show ?thesis
    using disabled_session_forwards_nothing [OF d, of IntervalTick
        "[MouseMove list_page near_item 1015, IntervalTick]"] d p c t
    by simp
qed

text \<open>
  Three samples accumulate with no interval tick in between and no batch is sent: a count
  of accumulated samples, here any ceiling up to three, does not trigger a flush.
\<close>

theorem no_flush_on_sample_count:
  "sent_batches (channel_calls
     (run [toggle, MouseMove list_page over_item 1000, MouseMove list_page near_item 1015,
           MouseMove list_page over_item 1030] (init ''#1A2B3C''))) = [] \<and>
   length (positions
     (run [toggle, MouseMove list_page over_item 1000, MouseMove list_page near_item 1015,
           MouseMove list_page over_item 1030] (init ''#1A2B3C''))) = 3"
  by (simp add: run_def toggle_def onMessage_def init_def mousemove_def capture_def
      swallow_def list_page_def item1_def baseTime_unset_def)

text \<open>
  C5, amended. The only trigger of a flush is the interval callback: an event sends a batch
  exactly when it is the interval tick of an enabled session with a non-empty accumulator,
  and it then sends the whole accumulator and resets accumulator and base time. No other
  event sends a batch, whatever the number of samples accumulated.
\<close>

theorem flush_only_on_interval:
  "sent_batches (channel_calls (step ev s)) =
     (if ev = IntervalTick \<and> cursorCommunicationEnabled s \<and> positions s \<noteq> []
      then sent_batches (channel_calls s) @ [positions s]
      else sent_batches (channel_calls s)) \<and>
   (ev = IntervalTick \<and> cursorCommunicationEnabled s \<longrightarrow>
      positions (step ev s) = [] \<and> baseTime (step ev s) = (if positions s = [] then baseTime s else None))"
  by (simp add: step_sent flush_def)

text \<open>The interval tick of an enabled session with two samples waiting sends both.\<close>

theorem flush_only_on_interval_witness:
  "cursorCommunicationEnabled
     (run [toggle, MouseMove list_page over_item 1000, MouseMove list_page near_item 1015]
        (init ''#1A2B3C'')) \<and>
   sent_batches (channel_calls (step IntervalTick
     (run [toggle, MouseMove list_page over_item 1000, MouseMove list_page near_item 1015]
        (init ''#1A2B3C'')))) = [[captured_1, captured_2]] \<and>
   positions (step IntervalTick
     (run [toggle, MouseMove list_page over_item 1000, MouseMove list_page near_item 1015]
        (init ''#1A2B3C''))) = []"
proof -
  let ?s = "run [toggle, MouseMove list_page over_item 1000, MouseMove list_page near_item 1015]
        (init ''#1A2B3C'')"
  have en: "cursorCommunicationEnabled ?s"
    and p: "positions ?s = [captured_1, captured_2]"
    and c: "sent_batches (channel_calls ?s) = []"
    by (simp_all add: run_def toggle_def onMessage_def init_def mousemove_def capture_def
        swallow_def list_page_def item1_def over_item_def near_item_def baseTime_unset_def
        elementClassAndID_def replaceAll_def captured_1_def captured_2_def)
  show ?thesis
    using flush_only_on_interval [of IntervalTick ?s] en p c by simp
qed

section \<open>Order of batches\<close>

text \<open>
  After the batch of A with base timestamp 1000 has been replayed, a batch of A with base
  timestamp 500 arrives: its sample is scheduled and, when the timer fires, moves the cursor
  back to (1, 1).
\<close>

theorem older_batch_is_applied:
  "baseTimestamp (msg_data batch_A) = Some 1000 \<and>
   baseTimestamp (msg_data batch_old) = Some 500 \<and>
   cursor_at (run [PresenceUpdateMsg batch_A 2000, TimerFire blank_page, TimerFire blank_page]
       enabled0) ''A'' = Some (Some 20, Some 15) \<and>
   timers (run [PresenceUpdateMsg batch_A 2000, TimerFire blank_page, TimerFire blank_page,
                PresenceUpdateMsg batch_old 2100] enabled0)
     = [(2100, ReplayUpdate ''A'' sample_old)] \<and>
   cursor_at (run [PresenceUpdateMsg batch_A 2000, TimerFire blank_page, TimerFire blank_page,
                   PresenceUpdateMsg batch_old 2100, TimerFire blank_page] enabled0) ''A''
     = Some (Some 1, Some 1)"
  by (simp add: run_def cursor_at_def onPresenceUpdate_def createCursor_def setTimeout_def
      timerDelay_def toInt32_def getCursor_def objectPrototypeNames_def
      enabled0_def init_def batch_A_def batch_old_def sample_a_def sample_b_def sample_old_def
      swallow_def replayUpdate_def moveCursor_def blank_page_def)

text \<open>
  C6, amended. The update listener makes no ordering check: what it does is independent of
  the base timestamp of the payload, and every batch received while the session is enabled
  has one update per sample scheduled, due at the time of receipt plus the timer's delay for
  the sample's offset, while the timers already pending stay pending. The timer that fires
  next is one with the least due time, so pending updates take effect in order of due time,
  not in order of arrival or of base timestamp.
\<close>

theorem update_ignores_baseTimestamp:
  "onPresenceUpdate (m\<lparr>msg_data := (msg_data m)\<lparr>baseTimestamp := ts\<rparr>\<rparr>) now s =
     onPresenceUpdate m now s \<and>
   (cursorCommunicationEnabled s \<and> data_positions (msg_data m) = Some ps \<longrightarrow>
      timers (onPresenceUpdate m now s) =
        timers s @
        map (\<lambda>p. (now + timerDelay (pos_time p), ReplayUpdate (msg_clientId m) p)) ps) \<and>
   (\<forall>tc. earliest (timers s) = Some tc \<longrightarrow>
      timers (step (TimerFire doc) s) = remove1 tc (timers s) \<and>
      tc \<in> set (timers s) \<and> (\<forall>u\<in>set (timers s). fst tc \<le> fst u))"
proof (intro conjI impI allI ballI)
  show "onPresenceUpdate (m\<lparr>msg_data := (msg_data m)\<lparr>baseTimestamp := ts\<rparr>\<rparr>) now s =
     onPresenceUpdate m now s"
    by (simp add: onPresenceUpdate_def createCursor_def fold_setTimeout_eq Let_def
        split: option.splits)
next
  assume "cursorCommunicationEnabled s \<and> data_positions (msg_data m) = Some ps"
  then show "timers (onPresenceUpdate m now s) =
        timers s @
        map (\<lambda>p. (now + timerDelay (pos_time p), ReplayUpdate (msg_clientId m) p)) ps"
    by (simp add: onPresenceUpdate_timers)
next
  fix tc
  assume e: "earliest (timers s) = Some tc"
  show "timers (step (TimerFire doc) s) = remove1 tc (timers s)"
    using e fire_timers [of "s\<lparr>timers := remove1 tc (timers s)\<rparr>" doc "snd tc"]
    by (simp add: Let_def)
  show "tc \<in> set (timers s)"
    using e by (rule earliest_in_set)
  fix u
  assume "u \<in> set (timers s)"
  with e show "fst tc \<le> fst u"
    by (rule earliest_least)
qed

text \<open>
  The older batch arrives at 2010, while the second timer of the newer one is pending: its
  sample is due at 2010, before the pending one at 2050, and takes effect first.
\<close>

theorem update_ignores_baseTimestamp_witness:
  "cursorCommunicationEnabled
     (run [PresenceUpdateMsg batch_A 2000, TimerFire blank_page] enabled0) \<and>
   data_positions (msg_data batch_old) = Some [sample_old] \<and>
   timers (run [PresenceUpdateMsg batch_A 2000, TimerFire blank_page] enabled0)
     = [(2050, ReplayUpdate ''A'' sample_b)] \<and>
   timers (onPresenceUpdate batch_old 2010
      (run [PresenceUpdateMsg batch_A 2000, TimerFire blank_page] enabled0))
     = [(2050, ReplayUpdate ''A'' sample_b), (2010, ReplayUpdate ''A'' sample_old)] \<and>
   earliest [(2050, ReplayUpdate ''A'' sample_b), (2010, ReplayUpdate ''A'' sample_old)]
     = Some (2010, ReplayUpdate ''A'' sample_old) \<and>
   cursor_at (run [PresenceUpdateMsg batch_A 2000, TimerFire blank_page,
                   PresenceUpdateMsg batch_old 2010, TimerFire blank_page] enabled0) ''A''
     = Some (Some 1, Some 1) \<and>
   cursor_at (run [PresenceUpdateMsg batch_A 2000, TimerFire blank_page,
                   PresenceUpdateMsg batch_old 2010, TimerFire blank_page, TimerFire blank_page]
                enabled0) ''A''
     = Some (Some 20, Some 15)"
proof -
  let ?s = "run [PresenceUpdateMsg batch_A 2000, TimerFire blank_page] enabled0"
  have en: "cursorCommunicationEnabled ?s"
    and t: "timers ?s = [(2050, ReplayUpdate ''A'' sample_b)]"
    by (simp_all add: run_def onPresenceUpdate_def createCursor_def setTimeout_def
      timerDelay_def toInt32_def getCursor_def objectPrototypeNames_def
      enabled0_def init_def batch_A_def sample_a_def sample_b_def
      swallow_def replayUpdate_def moveCursor_def blank_page_def)
  have d: "data_positions (msg_data batch_old) = Some [sample_old]"
    by (simp add: batch_old_def)
  have "timers (onPresenceUpdate batch_old 2010 ?s) =
        timers ?s @
        map (\<lambda>p. (2010 + timerDelay (pos_time p), ReplayUpdate (msg_clientId batch_old) p))
          [sample_old]"
    using update_ignores_baseTimestamp
            [where m = batch_old and ts = None and now = 2010 and s = ?s and ps = "[sample_old]"
               and doc = blank_page]
          en d
    by blast
  then have sched: "timers (onPresenceUpdate batch_old 2010 ?s)
     = [(2050, ReplayUpdate ''A'' sample_b), (2010, ReplayUpdate ''A'' sample_old)]"
    by (simp add: t batch_old_def sample_old_def timerDelay_def toInt32_def)
  have first: "earliest [(2050, ReplayUpdate ''A'' sample_b), (2010, ReplayUpdate ''A'' sample_old)]
     = Some (2010, ReplayUpdate ''A'' sample_old)"
    by simp
  have c1: "cursor_at (run [PresenceUpdateMsg batch_A 2000, TimerFire blank_page,
                   PresenceUpdateMsg batch_old 2010, TimerFire blank_page] enabled0) ''A''
     = Some (Some 1, Some 1)"
    by (simp add: run_def cursor_at_def onPresenceUpdate_def createCursor_def setTimeout_def
      timerDelay_def toInt32_def getCursor_def objectPrototypeNames_def
      enabled0_def init_def batch_A_def batch_old_def sample_a_def sample_b_def sample_old_def
      swallow_def replayUpdate_def moveCursor_def blank_page_def)
  have c2: "cursor_at (run [PresenceUpdateMsg batch_A 2000, TimerFire blank_page,
                   PresenceUpdateMsg batch_old 2010, TimerFire blank_page, TimerFire blank_page]
                enabled0) ''A''
     = Some (Some 20, Some 15)"
    by (simp add: run_def cursor_at_def onPresenceUpdate_def createCursor_def setTimeout_def
      timerDelay_def toInt32_def getCursor_def objectPrototypeNames_def
      enabled0_def init_def batch_A_def batch_old_def sample_a_def sample_b_def sample_old_def
      swallow_def replayUpdate_def moveCursor_def blank_page_def)
  show ?thesis
    using en d t sched first c1 c2 by blast
qed

section \<open>The toggle\<close>

text \<open>
  The control message is a toggle, and it cancels no timer. A session that has received the
  batch of A is disabled by the first message: the cursor entry is gone, the two timers of
  the batch are still pending. The second message enables the session again and announces
  presence, so it is not a no-op.
\<close>

theorem toggle_twice_and_pending_timers:
  "cursorCommunicationEnabled (run [PresenceUpdateMsg batch_A 2000] enabled0) \<and>
   \<not> cursorCommunicationEnabled (run [PresenceUpdateMsg batch_A 2000, toggle] enabled0) \<and>
   cursors (run [PresenceUpdateMsg batch_A 2000, toggle] enabled0) = [] \<and>
   timers (run [PresenceUpdateMsg batch_A 2000, toggle] enabled0)
     = [(2000, ReplayUpdate ''A'' sample_a), (2050, ReplayUpdate ''A'' sample_b)] \<and>
   channel_calls (run [PresenceUpdateMsg batch_A 2000, toggle] enabled0) = [PresenceLeave] \<and>
   cursorCommunicationEnabled (run [PresenceUpdateMsg batch_A 2000, toggle, toggle] enabled0) \<and>
   channel_calls (run [PresenceUpdateMsg batch_A 2000, toggle, toggle] enabled0)
     = [PresenceLeave, PresenceGet, PresenceEnter ''#1A2B3C'']"
  by (simp add: run_def toggle_def onMessage_def clearCursors_eq onPresenceUpdate_def
      createCursor_def setTimeout_def timerDelay_def toInt32_def getCursor_def
      objectPrototypeNames_def enabled0_def init_def batch_A_def sample_a_def sample_b_def)

text \<open>
  C7, amended. The toggle message sent to an enabled session disables it, removes every
  cursor entry and announces the departure, and leaves the pending timers pending; a timer
  that fires in the state so reached is removed and changes nothing else. Sent to a disabled
  session the message enables it, fetches the presence set and announces presence, leaving
  cursor entries and timers as they are. Removing the cursor entries twice is the same as
  removing them once.
\<close>

theorem toggle_flips_session:
  "(cursorCommunicationEnabled s \<longrightarrow>
      \<not> cursorCommunicationEnabled (onMessage ''setCursorCommunication'' s) \<and>
      cursors (onMessage ''setCursorCommunication'' s) = [] \<and>
      timers (onMessage ''setCursorCommunication'' s) = timers s \<and>
      channel_calls (onMessage ''setCursorCommunication'' s) = channel_calls s @ [PresenceLeave] \<and>
      (\<forall>tc. earliest (timers s) = Some tc \<longrightarrow>
         step (TimerFire doc) (onMessage ''setCursorCommunication'' s) =
           (onMessage ''setCursorCommunication'' s)\<lparr>timers := remove1 tc (timers s)\<rparr>)) \<and>
   (\<not> cursorCommunicationEnabled s \<longrightarrow>
      cursorCommunicationEnabled (onMessage ''setCursorCommunication'' s) \<and>
      cursors (onMessage ''setCursorCommunication'' s) = cursors s \<and>
      timers (onMessage ''setCursorCommunication'' s) = timers s \<and>
      channel_calls (onMessage ''setCursorCommunication'' s)
        = channel_calls s @ [PresenceGet, PresenceEnter (color s)]) \<and>
   clearCursors (clearCursors s) = clearCursors s"
proof (intro conjI impI allI)
  let ?s' = "onMessage ''setCursorCommunication'' s"
  show "clearCursors (clearCursors s) = clearCursors s"
    by (simp add: clearCursors_eq)
  {
    assume "\<not> cursorCommunicationEnabled s"
    then show "cursorCommunicationEnabled ?s'" and "cursors ?s' = cursors s"
      and "timers ?s' = timers s"
      and "channel_calls ?s' = channel_calls s @ [PresenceGet, PresenceEnter (color s)]"
      by (simp_all add: onMessage_def)
  }
  assume en: "cursorCommunicationEnabled s"
  then show "\<not> cursorCommunicationEnabled ?s'" and c: "cursors ?s' = []"
    and t: "timers ?s' = timers s"
    and "channel_calls ?s' = channel_calls s @ [PresenceLeave]"
    by (simp_all add: onMessage_def clearCursors_eq)
  fix tc
  assume "earliest (timers s) = Some tc"
  then have "step (TimerFire doc) ?s' =
      swallow (?s'\<lparr>timers := remove1 tc (timers s)\<rparr>)
        (fire doc (snd tc) (?s'\<lparr>timers := remove1 tc (timers s)\<rparr>))"
    by (simp add: t Let_def)
  also have "\<dots> = ?s'\<lparr>timers := remove1 tc (timers s)\<rparr>"
    by (rule fire_no_cursors) (simp add: c)
  finally show "step (TimerFire doc) ?s' = ?s'\<lparr>timers := remove1 tc (timers s)\<rparr>" .
qed

text \<open>
  The session that has received the batch of A, toggled: the entry for A is removed, both
  timers stay; the first one fires without effect; a second toggle enables the session.
\<close>

theorem toggle_flips_session_witness:
  "cursorCommunicationEnabled (run [PresenceUpdateMsg batch_A 2000] enabled0) \<and>
   map fst (cursors (run [PresenceUpdateMsg batch_A 2000] enabled0)) = [''A''] \<and>
   earliest (timers (run [PresenceUpdateMsg batch_A 2000] enabled0))
     = Some (2000, ReplayUpdate ''A'' sample_a) \<and>
   \<not> cursorCommunicationEnabled
       (onMessage ''setCursorCommunication'' (run [PresenceUpdateMsg batch_A 2000] enabled0)) \<and>
   cursors (onMessage ''setCursorCommunication'' (run [PresenceUpdateMsg batch_A 2000] enabled0))
     = [] \<and>
   timers (onMessage ''setCursorCommunication'' (run [PresenceUpdateMsg batch_A 2000] enabled0))
     = [(2000, ReplayUpdate ''A'' sample_a), (2050, ReplayUpdate ''A'' sample_b)] \<and>
   timers (step (TimerFire blank_page)
      (onMessage ''setCursorCommunication'' (run [PresenceUpdateMsg batch_A 2000] enabled0)))
     = [(2050, ReplayUpdate ''A'' sample_b)] \<and>
   cursors (step (TimerFire blank_page)
      (onMessage ''setCursorCommunication'' (run [PresenceUpdateMsg batch_A 2000] enabled0)))
     = [] \<and>
   cursorCommunicationEnabled
     (onMessage ''setCursorCommunication''
        (onMessage ''setCursorCommunication'' (run [PresenceUpdateMsg batch_A 2000] enabled0)))"
proof -
  let ?s = "run [PresenceUpdateMsg batch_A 2000] enabled0"
  let ?off = "onMessage ''setCursorCommunication'' ?s"
  have en: "cursorCommunicationEnabled ?s"
    and c: "map fst (cursors ?s) = [''A'']"
    and t: "timers ?s = [(2000, ReplayUpdate ''A'' sample_a), (2050, ReplayUpdate ''A'' sample_b)]"
    by (simp_all add: run_def onPresenceUpdate_def createCursor_def setTimeout_def
      timerDelay_def toInt32_def getCursor_def objectPrototypeNames_def
      enabled0_def init_def batch_A_def sample_a_def sample_b_def)
  have e: "earliest (timers ?s) = Some (2000, ReplayUpdate ''A'' sample_a)"
    by (simp add: t)
  have off: "\<not> cursorCommunicationEnabled ?off" "cursors ?off = []" "timers ?off = timers ?s"
    and fired: "step (TimerFire blank_page) ?off =
       ?off\<lparr>timers := remove1 (2000, ReplayUpdate ''A'' sample_a) (timers ?s)\<rparr>"
    using toggle_flips_session [of ?s blank_page] en e by blast+
  have on: "cursorCommunicationEnabled (onMessage ''setCursorCommunication'' ?off)"
    using toggle_flips_session [of ?off blank_page] off(1) by blast
  have "timers (step (TimerFire blank_page) ?off) = [(2050, ReplayUpdate ''A'' sample_b)]"
    and "cursors (step (TimerFire blank_page) ?off) = []"
    by (simp_all only: fired) (simp_all add: t off(2))
  then show ?thesis
    using en c e off on by (simp add: t)
qed

end
